theory Spec2Isabelle
  imports Complex_Main "HOL-Library.Word" "HOL-Library.Signed_Division" "HOL-Library.AList"
begin

section \<open>Protocol Argus Cortex: flow tracking and behavioural scoring\<close>

text \<open>
  Conventions of the embedding.
  \<^item> Go's \<open>float64\<close> is modelled by \<open>real\<close>: arithmetic is exact, there is no rounding,
    no infinity and no NaN.
  \<^item> \<open>time.Time\<close> is an \<open>int\<close>, the nanoseconds on one common time line;
    \<open>time.Now()\<close> is a parameter of every function that reads the clock.
  \<^item> Counters of type \<open>int64\<close> are \<open>int\<close>; a packet size (Go \<open>int\<close>) is a 64-bit
    word, so that the sum of sizes wraps as the code's does.
  \<^item> A Go \<open>map[string]*Flow\<close> is an association list with distinct keys; an update
    through a \<open>*Flow\<close> pointer is an update of the entry under that flow's key.
  \<^item> Mutexes and logging calls have no counterpart: every function is one atomic step.
\<close>

subsection \<open>Cortex engine: results and statistics (internal/cortex/engine.go)\<close>

record DetectionResult =
  IsBot :: bool
  Confidence :: real
  Features :: "real list"
  Reasoning :: string
  Timestamp :: int
  FlowID :: string

record Statistics =
  TotalInferences :: int
  BotDetections :: int
  HumanDetections :: int
  AverageConfidence :: real
  LastInference :: int

text \<open>The zero value \<open>&Statistics{}\<close> the constructor installs.\<close>

definition Statistics_zero :: Statistics where
  "Statistics_zero =
     \<lparr>TotalInferences = 0, BotDetections = 0, HumanDetections = 0,
      AverageConfidence = 0, LastInference = 0\<rparr>"

definition updateStats :: "Statistics \<Rightarrow> DetectionResult \<Rightarrow> Statistics" where
  "updateStats s result =
     (let s1 = s\<lparr>TotalInferences := TotalInferences s + 1\<rparr>;
          s2 = s1\<lparr>LastInference := Timestamp result\<rparr>;
          s3 = (if IsBot result
                then s2\<lparr>BotDetections := BotDetections s2 + 1\<rparr>
                else s2\<lparr>HumanDetections := HumanDetections s2 + 1\<rparr>);
          total = real_of_int (TotalInferences s3)
      in s3\<lparr>AverageConfidence :=
              (AverageConfidence s3 * (total - 1) + Confidence result) / total\<rparr>)"

text \<open>Feeding a sequence of results, oldest first, as successive calls do.\<close>

definition updateStats_all :: "Statistics \<Rightarrow> DetectionResult list \<Rightarrow> Statistics" where
  "updateStats_all s results = foldl updateStats s results"

subsection \<open>ML engine: results and statistics (pkg/ml/engine.go)\<close>

record MLDetectionResult =
  ml_IsBot :: bool
  ml_Confidence :: real
  ml_Features :: "real list"
  ml_Reasoning :: string
  ml_ModelUsed :: string
  ml_Timestamp :: int
  ml_FlowID :: string

record MLStatistics =
  TotalPredictions :: int
  ml_BotDetections :: int
  ml_HumanDetections :: int
  ml_AverageConfidence :: real
  ModelAccuracy :: real
  TrainingTime :: int
  LastPrediction :: int

definition MLStatistics_zero :: MLStatistics where
  "MLStatistics_zero =
     \<lparr>TotalPredictions = 0, ml_BotDetections = 0, ml_HumanDetections = 0,
      ml_AverageConfidence = 0, ModelAccuracy = 0, TrainingTime = 0, LastPrediction = 0\<rparr>"

definition ml_updateStats :: "MLStatistics \<Rightarrow> MLDetectionResult \<Rightarrow> MLStatistics" where
  "ml_updateStats s result =
     (let s1 = s\<lparr>TotalPredictions := TotalPredictions s + 1\<rparr>;
          s2 = (if ml_IsBot result
                then s1\<lparr>ml_BotDetections := ml_BotDetections s1 + 1\<rparr>
                else s1\<lparr>ml_HumanDetections := ml_HumanDetections s1 + 1\<rparr>);
          total = real_of_int (TotalPredictions s2);
          s3 = s2\<lparr>ml_AverageConfidence :=
                    (ml_AverageConfidence s2 * (total - 1) + ml_Confidence result) / total\<rparr>
      in s3\<lparr>LastPrediction := ml_Timestamp result\<rparr>)"

definition ml_updateStats_all :: "MLStatistics \<Rightarrow> MLDetectionResult list \<Rightarrow> MLStatistics" where
  "ml_updateStats_all s results = foldl ml_updateStats s results"

subsection \<open>Errors\<close>

text \<open>
  Every error return of the modelled functions, and the panics they can raise: a nil
  model pointer, gonum's \<open>mat.NewVecDense\<close> on length zero, and gonum's \<open>mat.Dot\<close> on
  vectors of different lengths. A panic is not an error value that a caller can test
  for: it propagates through every caller.
\<close>

datatype error =
    ModelNotLoaded
  | InvalidFeatureVectorSize int int
  | FailedToLoadModel error
  | UnsupportedModelType string
  | NNInferenceFailed
  | NNOutputExtractionFailed
  | MLPredictionFailed error
  | NilPointerPanic
  | ZeroLengthPanic
  | DotShapePanic

definition is_panic :: "error \<Rightarrow> bool" where
  "is_panic err = (err = NilPointerPanic \<or> err = ZeroLengthPanic \<or> err = DotShapePanic)"

subsection \<open>Cortex engine: model, inference, Analyze\<close>

record CortexConfig =
  ModelPath :: string
  DetectionThreshold :: real
  BatchSize :: int
  InferenceTimeout :: int

record Model =
  Path :: string
  Version :: string
  InputSize :: int
  OutputSize :: int
  loaded :: bool

text \<open>\<open>cortex.Engine\<close>; the \<open>model\<close> pointer is nil until \<open>loadModel\<close> has run.\<close>

record cortex_Engine =
  c_config :: CortexConfig
  c_model :: "Model option"
  c_stats :: Statistics

definition loadModel :: "cortex_Engine \<Rightarrow> error + cortex_Engine" where
  "loadModel e =
     Inr (e\<lparr>c_model := Some \<lparr>Path = ModelPath (c_config e), Version = ''1.0.0'',
                               InputSize = 128, OutputSize = 2, loaded = True\<rparr>\<rparr>)"

definition NewEngine :: "CortexConfig \<Rightarrow> error + cortex_Engine" where
  "NewEngine cfg =
     (let engine = \<lparr>c_config = cfg, c_model = None, c_stats = Statistics_zero\<rparr>
      in case loadModel engine of
           Inl err \<Rightarrow> Inl (FailedToLoadModel err)
         | Inr engine' \<Rightarrow> Inr engine')"

text \<open>
  \<open>simulateInference\<close> reads the clock once: \<open>nano\<close> is \<open>time.Now().UnixNano()\<close>.
  Go's \<open>%\<close> truncates towards zero, which is \<open>smod\<close>.
\<close>

definition simulateInference :: "real list \<Rightarrow> int \<Rightarrow> real \<times> string" where
  "simulateInference features nano =
     (let score0 = (0::real);
          score1 = (if length features \<ge> 10
                    then (let avgPacketSize = features ! 0
                          in if avgPacketSize > 1400 then score0 + 0.3 else score0)
                    else score0);
          score2 = (if length features \<ge> 20
                    then (let timingVariance = features ! 10
                          in if timingVariance < 0.1 then score1 + 0.4 else score1)
                    else score1);
          score3 = (if length features \<ge> 30
                    then (let httpHeaders = features ! 20
                          in if httpHeaders < 0.5 then score2 + 0.2 else score2)
                    else score2);
          score4 = score3 + real_of_int (nano smod 100) / 1000;
          score = (if score4 > 1.0 then 1.0 else score4);
          reasoning =
            (if score > 0.7
             then ''High confidence bot detection based on automated behavior patterns''
             else if score > 0.4
             then ''Suspicious activity detected, moderate confidence''
             else ''Appears to be human traffic based on behavioral analysis'')
      in (score, reasoning))"

text \<open>
  \<open>Analyze\<close> returns the error or the result, together with the engine as the call
  leaves it; \<open>nano\<close> is the clock read by the inference, \<open>now\<close> the one stored as
  timestamp.
\<close>

definition Analyze ::
  "cortex_Engine \<Rightarrow> real list \<Rightarrow> string \<Rightarrow> int \<Rightarrow> int \<Rightarrow> (error + DetectionResult) \<times> cortex_Engine"
where
  "Analyze e features flowID nano now =
     (case c_model e of
        None \<Rightarrow> (Inl NilPointerPanic, e)
      | Some m \<Rightarrow>
          if \<not> loaded m then (Inl ModelNotLoaded, e)
          else if int (length features) \<noteq> InputSize m
          then (Inl (InvalidFeatureVectorSize (int (length features)) (InputSize m)), e)
          else (let (confidence, reasoning) = simulateInference features nano;
                    isBot = (confidence \<ge> DetectionThreshold (c_config e));
                    result = \<lparr>IsBot = isBot, Confidence = confidence, Features = features,
                              Reasoning = reasoning, Timestamp = now, FlowID = flowID\<rparr>
                in (Inr result, e\<lparr>c_stats := updateStats (c_stats e) result\<rparr>)))"

subsection \<open>ML engine: backends and Predict (pkg/ml/engine.go)\<close>

record MLConfig =
  ModelType :: string
  ml_DetectionThreshold :: real
  ml_BatchSize :: int
  TrainingEpochs :: int
  LearningRate :: real
  FeatureSize :: int
  GenerateFakeData :: bool
  FakeDataSize :: int

text \<open>
  The network of \<open>initializeNeuralNetwork\<close>: one hidden layer with ReLU and a sigmoid
  output. The source creates the weight nodes without values, so the values the
  library holds for them are fields here (\<open>hiddenWeights\<close> row by row, one row per
  input), and \<open>vm_RunAll\<close> says whether the tape machine's \<open>RunAll\<close> succeeds on an input.
\<close>

record NeuralNetwork =
  hiddenWeights :: "real list list"
  hiddenBias :: "real list"
  outputWeights :: "real list"
  outputBias :: real
  vm_RunAll :: "real list \<Rightarrow> bool"
  nn_trained :: bool

record SVMClassifier =
  weights :: "real list"
  bias :: real
  svm_trained :: bool

record MLEngine =
  nnModel :: "NeuralNetwork option"
  svmModel :: "SVMClassifier option"
  ml_config :: MLConfig
  ml_stats :: MLStatistics

definition sigmoid :: "real \<Rightarrow> real" where
  "sigmoid x = 1 / (1 + exp (- x))"

definition rectify :: "real \<Rightarrow> real" where
  "rectify x = (if x > 0 then x else 0)"

definition dot :: "real list \<Rightarrow> real list \<Rightarrow> real" where
  "dot xs ys = sum_list (map2 (*) xs ys)"

text \<open>
  gonum's \<open>mat.NewVecDense\<close> panics on length zero, and \<open>mat.Dot\<close> panics when the two
  vectors differ in length.
\<close>

definition mat_NewVecDense :: "real list \<Rightarrow> error + real list" where
  "mat_NewVecDense data = (if length data = 0 then Inl ZeroLengthPanic else Inr data)"

definition mat_Dot :: "real list \<Rightarrow> real list \<Rightarrow> error + real" where
  "mat_Dot a b = (if length a \<noteq> length b then Inl DotShapePanic else Inr (dot a b))"

text \<open>The data of the output tensor after a forward pass: a 1 by 1 matrix.\<close>

definition nn_output :: "NeuralNetwork \<Rightarrow> real list \<Rightarrow> real list" where
  "nn_output nn input =
     (let hidden = map2 (\<lambda>col b. rectify (dot input col + b))
                        (transpose (hiddenWeights nn)) (hiddenBias nn)
      in [sigmoid (dot hidden (outputWeights nn) + outputBias nn)])"

definition simulatePrediction_step :: "real \<Rightarrow> nat \<times> real \<Rightarrow> real" where
  "simulatePrediction_step score p =
     (let i = fst p; feature = snd p;
          score1 = (if i < 10 \<and> feature > 0.7 then score + 0.1 else score);
          score2 = (if i \<ge> 10 \<and> i < 20 \<and> feature < 0.3 then score1 + 0.1 else score1);
          score3 = (if i \<ge> 20 \<and> i < 30 \<and> \<bar>feature - 0.5\<bar> < 0.1 then score2 + 0.1 else score2)
      in score3)"

definition simulatePrediction :: "real list \<Rightarrow> real" where
  "simulatePrediction features =
     min (foldl simulatePrediction_step 0 (enumerate 0 features)) 1.0"

definition predictNeuralNetwork :: "MLEngine \<Rightarrow> real list \<Rightarrow> error + real" where
  "predictNeuralNetwork e features =
     (case nnModel e of
        None \<Rightarrow> Inr (simulatePrediction features)
      | Some nn \<Rightarrow>
          if \<not> nn_trained nn then Inr (simulatePrediction features)
          else if \<not> vm_RunAll nn features then Inl NNInferenceFailed
          else (case nn_output nn features of
                  [] \<Rightarrow> Inl NNOutputExtractionFailed
                | y # _ \<Rightarrow> Inr y))"

definition predictSVM :: "MLEngine \<Rightarrow> real list \<Rightarrow> error + real" where
  "predictSVM e features =
     (case svmModel e of
        None \<Rightarrow> Inr (simulatePrediction features)
      | Some svm \<Rightarrow>
          if \<not> svm_trained svm then Inr (simulatePrediction features)
          else (case mat_NewVecDense features of
                  Inl err \<Rightarrow> Inl err
                | Inr featureVec \<Rightarrow>
                    (case mat_Dot (weights svm) featureVec of
                       Inl err \<Rightarrow> Inl err
                     | Inr d \<Rightarrow> Inr (1.0 / (1.0 + exp (- (d + bias svm)))))))"

text \<open>
  \<open>predictEnsemble\<close> keeps the predictions of the sub-models that returned no error
  and averages them. The network is asked first; a panic of the SVM propagates.
\<close>

definition predictEnsemble :: "MLEngine \<Rightarrow> real list \<Rightarrow> error + real" where
  "predictEnsemble e features =
     (let nn = predictNeuralNetwork e features;
          svm = predictSVM e features;
          predictions = (case nn of Inr nnPred \<Rightarrow> [nnPred] | Inl _ \<Rightarrow> [])
                      @ (case svm of Inr svmPred \<Rightarrow> [svmPred] | Inl _ \<Rightarrow> [])
      in if (case svm of Inl err \<Rightarrow> is_panic err | Inr _ \<Rightarrow> False)
         then svm
         else if length predictions = 0 then Inr (simulatePrediction features)
         else Inr (sum_list predictions / real (length predictions)))"

definition generateReasoning :: "real list \<Rightarrow> real \<Rightarrow> string \<Rightarrow> string" where
  "generateReasoning features confidence modelUsed =
     (let r0 = (if confidence > 0.8 then ''High confidence bot detection based on ''
                else if confidence > 0.6 then ''Moderate confidence bot detection based on ''
                else if confidence > 0.4 then ''Low confidence bot detection based on ''
                else ''Human-like behavior detected based on '');
          r1 = r0 @ modelUsed @ '' model analysis. ''
      in if length features > 0
         then r1 @ ''Key indicators include packet timing patterns, ''
                 @ ''protocol behavior consistency, and flow characteristics.''
         else r1)"

text \<open>
  The tail of \<open>Predict\<close> after the switch on the model type: threshold, reasoning,
  result, statistics.
\<close>

definition Predict_finish ::
  "MLEngine \<Rightarrow> real list \<Rightarrow> string \<Rightarrow> int \<Rightarrow> real \<Rightarrow> string
     \<Rightarrow> (error + MLDetectionResult) \<times> MLEngine"
where
  "Predict_finish e features flowID now confidence modelUsed =
     (let isBot = (confidence > ml_DetectionThreshold (ml_config e));
          reasoning = generateReasoning features confidence modelUsed;
          result = \<lparr>ml_IsBot = isBot, ml_Confidence = confidence, ml_Features = features,
                    ml_Reasoning = reasoning, ml_ModelUsed = modelUsed,
                    ml_Timestamp = now, ml_FlowID = flowID\<rparr>
      in (Inr result, e\<lparr>ml_stats := ml_updateStats (ml_stats e) result\<rparr>))"

definition Predict ::
  "MLEngine \<Rightarrow> real list \<Rightarrow> string \<Rightarrow> int \<Rightarrow> (error + MLDetectionResult) \<times> MLEngine"
where
  "Predict e features flowID now =
     (if ModelType (ml_config e) = ''neural_network''
      then (case predictNeuralNetwork e features of
              Inl err \<Rightarrow> (Inl err, e)
            | Inr conf \<Rightarrow> Predict_finish e features flowID now conf ''neural_network'')
      else if ModelType (ml_config e) = ''svm''
      then (case predictSVM e features of
              Inl err \<Rightarrow> (Inl err, e)
            | Inr conf \<Rightarrow> Predict_finish e features flowID now conf ''svm'')
      else if ModelType (ml_config e) = ''ensemble''
      then (case predictEnsemble e features of
              Inl err \<Rightarrow> (Inl err, e)
            | Inr conf \<Rightarrow> Predict_finish e features flowID now conf ''ensemble'')
      else (Inl (UnsupportedModelType (ModelType (ml_config e))), e))"

subsection \<open>ML cortex engine: Analyze on top of the ML engine (internal/cortex/ml_engine.go)\<close>






subsection \<open>Engines as their constructors leave them\<close>

text \<open>
  A cortex engine is ready when its model is present, loaded and takes 128 inputs, which
  is what \<open>NewEngine\<close> establishes and \<open>Analyze\<close> keeps.
\<close>

definition engine_ready :: "cortex_Engine \<Rightarrow> bool" where
  "engine_ready e =
     (case c_model e of None \<Rightarrow> False | Some m \<Rightarrow> loaded m \<and> InputSize m = 128)"




text \<open>No sub-model of the engine reports trained.\<close>

definition none_trained :: "MLEngine \<Rightarrow> bool" where
  "none_trained e =
     ((case nnModel e of None \<Rightarrow> True | Some nn \<Rightarrow> \<not> nn_trained nn) \<and>
      (case svmModel e of None \<Rightarrow> True | Some svm \<Rightarrow> \<not> svm_trained svm))"

subsection \<open>Argus engine: packets, flows and the flow table (pkg/argus/engine.go)\<close>

text \<open>The \<open>Headers\<close> map of a packet is never read and is left out.\<close>

record Packet =
  pkt_Timestamp :: int
  pkt_Size :: "64 word"
  pkt_Direction :: string
  pkt_Protocol :: string

record Flow =
  ID :: string
  SrcIP :: "8 word list"
  DstIP :: "8 word list"
  SrcPort :: "16 word"
  DstPort :: "16 word"
  Protocol :: string
  Packets :: "Packet list"
  StartTime :: int
  LastSeen :: int
  flow_Features :: "real list"
  AnalysisPending :: bool

record CaptureStats =
  TotalPackets :: int
  ActiveFlows :: int
  AnalyzedFlows :: int
  LastPacket :: int

record CaptureConfig =
  Interface :: string
  BPFFilter :: string
  BufferSize :: int

record argus_Engine =
  a_config :: CaptureConfig
  cortex :: cortex_Engine
  flows :: "(string \<times> Flow) list"
  a_stats :: CaptureStats

subsubsection \<open>Time\<close>

text \<open>
  The zero \<open>time.Time\<close> is the first instant of year 1, that many nanoseconds before
  the Unix epoch. \<open>Sub\<close> saturates at the ends of \<open>int64\<close>; \<open>Seconds\<close> turns a
  duration into a float.
\<close>

definition time_zero :: int where
  "time_zero = - 62135596800 * 1000000000"

definition Minute :: int where
  "Minute = 60 * 1000000000"

definition time_Sub :: "int \<Rightarrow> int \<Rightarrow> int" where
  "time_Sub t u =
     (let d = t - u
      in if d > 2 ^ 63 - 1 then 2 ^ 63 - 1 else if d < - (2 ^ 63) then - (2 ^ 63) else d)"

definition Seconds :: "int \<Rightarrow> real" where
  "Seconds d = real_of_int d / 1000000000"

subsubsection \<open>Flow identifiers\<close>





subsubsection \<open>Ingestion\<close>

definition new_Flow :: "string \<Rightarrow> int \<Rightarrow> Flow" where
  "new_Flow flowID now =
     \<lparr>ID = flowID, SrcIP = [], DstIP = [], SrcPort = 0, DstPort = 0, Protocol = [],
      Packets = [], StartTime = now, LastSeen = time_zero, flow_Features = [],
      AnalysisPending = False\<rparr>"

definition addPacketToFlow :: "argus_Engine \<Rightarrow> string \<Rightarrow> Packet \<Rightarrow> int \<Rightarrow> argus_Engine" where
  "addPacketToFlow e flowID packet now =
     (let flow = (case map_of (flows e) flowID of
                    None \<Rightarrow> new_Flow flowID now
                  | Some f \<Rightarrow> f);
          flow' = flow\<lparr>Packets := Packets flow @ [packet], LastSeen := pkt_Timestamp packet\<rparr>;
          fl = AList.update flowID flow' (flows e)
      in e\<lparr>flows := fl, a_stats := (a_stats e)\<lparr>ActiveFlows := int (length fl)\<rparr>\<rparr>)"

subsubsection \<open>Feature extraction\<close>

definition fill_pattern :: "nat \<times> real \<Rightarrow> real" where
  "fill_pattern p = (if snd p = 0 then real (fst p mod 10) / 10.0 else snd p)"

definition extractFeatures :: "Flow \<Rightarrow> real list" where
  "extractFeatures flow =
     (let features0 = replicate 128 (0::real);
          pkts = Packets flow
      in if length pkts = 0 then features0
         else
          (let totalSize = foldl (\<lambda>t pkt. t + pkt_Size pkt) (0 :: 64 word) pkts;
               avgSize = real_of_int (sint totalSize) / real (length pkts);
               features1 = features0[0 := avgSize];
               features2 =
                 (if length pkts > 1
                  then (let intervals =
                              map (\<lambda>i. Seconds (time_Sub (pkt_Timestamp (pkts ! i))
                                                           (pkt_Timestamp (pkts ! (i - 1)))))
                                  [1..<length pkts];
                            sum = foldl (\<lambda>a interval. a + interval) 0 intervals;
                            sumSq = foldl (\<lambda>a interval. a + interval * interval) 0 intervals;
                            mean = sum / real (length intervals);
                            variance = (sumSq / real (length intervals)) - (mean * mean)
                        in features1[10 := variance])
                  else features1);
               features3 = features2[20 := real (length pkts)];
               features4 = features3[21 := Seconds (time_Sub (LastSeen flow) (StartTime flow))]
           in map fill_pattern (enumerate 0 features4)))"

subsubsection \<open>The analysis cycle\<close>

text \<open>
  \<open>performFlowAnalysis\<close> snapshots the flows that are not pending and have at least ten
  packets, then for each of them sets the flag through the pointer, extracts the
  features and starts a goroutine. The model returns the engine after the loop and the
  started goroutines as a list of tasks (flow ID and features), in the order of the loop.
  \<open>analysis_goroutine\<close> is the body of one goroutine, run to its end.
\<close>

definition eligible :: "string \<times> Flow \<Rightarrow> bool" where
  "eligible p = (\<not> AnalysisPending (snd p) \<and> length (Packets (snd p)) \<ge> 10)"

definition mark_pending :: "string \<Rightarrow> (string \<times> Flow) list \<Rightarrow> (string \<times> Flow) list" where
  "mark_pending k fl =
     map (\<lambda>p. if fst p = k then (fst p, (snd p)\<lparr>AnalysisPending := True\<rparr>) else p) fl"

definition performFlowAnalysis ::
  "argus_Engine \<Rightarrow> argus_Engine \<times> (string \<times> real list) list"
where
  "performFlowAnalysis e =
     (let selected = filter eligible (flows e);
          fl = foldl (\<lambda>fl p. mark_pending (fst p) fl) (flows e) selected;
          tasks = map (\<lambda>p. (ID (snd p), extractFeatures ((snd p)\<lparr>AnalysisPending := True\<rparr>)))
                      selected
      in (e\<lparr>flows := fl\<rparr>, tasks))"

definition analysis_goroutine ::
  "argus_Engine \<Rightarrow> string \<times> real list \<Rightarrow> int \<Rightarrow> int \<Rightarrow> argus_Engine"
where
  "analysis_goroutine e task nano now =
     (case Analyze (cortex e) (snd task) (fst task) nano now of
        (Inl err, c) \<Rightarrow> e\<lparr>cortex := c\<rparr>
      | (Inr result, c) \<Rightarrow>
          e\<lparr>cortex := c,
            a_stats := (a_stats e)\<lparr>AnalyzedFlows := AnalyzedFlows (a_stats e) + 1\<rparr>\<rparr>)"

subsubsection \<open>The eviction sweep\<close>

definition removeOldFlows :: "int \<Rightarrow> argus_Engine \<Rightarrow> argus_Engine" where
  "removeOldFlows now e =
     (let cutoff = now + (- 5 * Minute);
          fl = filter (\<lambda>p. \<not> LastSeen (snd p) < cutoff) (flows e)
      in e\<lparr>flows := fl, a_stats := (a_stats e)\<lparr>ActiveFlows := int (length fl)\<rparr>\<rparr>)"

subsection \<open>The statistics invariant\<close>

definition stats_inv :: "Statistics \<Rightarrow> bool" where
  "stats_inv s \<longleftrightarrow>
     0 \<le> TotalInferences s \<and> 0 \<le> BotDetections s \<and> 0 \<le> HumanDetections s \<and>
     BotDetections s + HumanDetections s = TotalInferences s"

definition ml_stats_inv :: "MLStatistics \<Rightarrow> bool" where
  "ml_stats_inv s \<longleftrightarrow>
     0 \<le> TotalPredictions s \<and> 0 \<le> ml_BotDetections s \<and> 0 \<le> ml_HumanDetections s \<and>
     ml_BotDetections s + ml_HumanDetections s = TotalPredictions s"

subsection \<open>Concrete inputs\<close>

text \<open>
  The results of the unit test \<open>TestUpdateStats\<close>: confidences 0.9, 0.3 and 0.8, fed in
  this order.
\<close>

definition test_results :: "DetectionResult list" where
  "test_results =
     [\<lparr>IsBot = True, Confidence = 0.9, Features = [], Reasoning = [], Timestamp = 1, FlowID = []\<rparr>,
      \<lparr>IsBot = False, Confidence = 0.3, Features = [], Reasoning = [], Timestamp = 2, FlowID = []\<rparr>,
      \<lparr>IsBot = True, Confidence = 0.8, Features = [], Reasoning = [], Timestamp = 3, FlowID = []\<rparr>]"

definition ml_test_results :: "MLDetectionResult list" where
  "ml_test_results =
     [\<lparr>ml_IsBot = True, ml_Confidence = 0.9, ml_Features = [], ml_Reasoning = [],
       ml_ModelUsed = ''svm'', ml_Timestamp = 1, ml_FlowID = []\<rparr>,
      \<lparr>ml_IsBot = False, ml_Confidence = 0.3, ml_Features = [], ml_Reasoning = [],
       ml_ModelUsed = ''svm'', ml_Timestamp = 2, ml_FlowID = []\<rparr>,
      \<lparr>ml_IsBot = True, ml_Confidence = 0.8, ml_Features = [], ml_Reasoning = [],
       ml_ModelUsed = ''svm'', ml_Timestamp = 3, ml_FlowID = []\<rparr>]"

text \<open>
  The cortex engine of the unit tests, as \<open>NewEngine\<close> returns it, and the feature
  vector of \<open>TestAnalyze\<close>: 128 values, the i-th being i / 128.
\<close>

definition test_cfg :: CortexConfig where
  "test_cfg = \<lparr>ModelPath = ''./test_model.onnx'', DetectionThreshold = 0.85,
               BatchSize = 32, InferenceTimeout = 1000\<rparr>"

definition test_engine :: cortex_Engine where
  "test_engine =
     \<lparr>c_config = test_cfg,
      c_model = Some \<lparr>Path = ''./test_model.onnx'', Version = ''1.0.0'', InputSize = 128,
                      OutputSize = 2, loaded = True\<rparr>,
      c_stats = Statistics_zero\<rparr>"

definition test_features :: "real list" where
  "test_features = map (\<lambda>i. real i / 128) [0..<128]"

text \<open>
  ML engines. The ensemble engine is the one the constructor builds without training
  data: an SVM with 128 zero weights and a network whose weight nodes hold no values,
  so that its tape machine cannot run. The second engine is of type \<open>neural_network\<close>
  after \<open>trainNeuralNetwork\<close> has set the trained flag.
\<close>

definition ensemble_cfg :: MLConfig where
  "ensemble_cfg = \<lparr>ModelType = ''ensemble'', ml_DetectionThreshold = 0.6, ml_BatchSize = 32,
                   TrainingEpochs = 100, LearningRate = 0.001, FeatureSize = 128,
                   GenerateFakeData = False, FakeDataSize = 1000\<rparr>"

definition blank_network :: NeuralNetwork where
  "blank_network = \<lparr>hiddenWeights = [], hiddenBias = [], outputWeights = [], outputBias = 0,
                    vm_RunAll = (\<lambda>input. False), nn_trained = False\<rparr>"

definition ensemble_engine :: MLEngine where
  "ensemble_engine =
     \<lparr>nnModel = Some blank_network,
      svmModel = Some \<lparr>weights = replicate 128 0, bias = 0, svm_trained = False\<rparr>,
      ml_config = ensemble_cfg, ml_stats = MLStatistics_zero\<rparr>"







definition ensemble_reasoning :: string where
  "ensemble_reasoning =
     ''High confidence bot detection based on ensemble model analysis. ''
     @ ''Key indicators include packet timing patterns, ''
     @ ''protocol behavior consistency, and flow characteristics.''"

definition ensemble_result :: MLDetectionResult where
  "ensemble_result =
     \<lparr>ml_IsBot = True, ml_Confidence = 1, ml_Features = test_features,
      ml_Reasoning = ensemble_reasoning, ml_ModelUsed = ''ensemble'',
      ml_Timestamp = 7, ml_FlowID = ''test-flow-123''\<rparr>"


text \<open>
  Flows and Argus engines: a flow with a single packet; a flow with ten packets, one
  every tenth of a second; an engine tracking the latter; and an engine with three
  flows last seen 14 minutes, 10 minutes and 0 minutes after time 0.
\<close>

definition test_packet :: "int \<Rightarrow> Packet" where
  "test_packet t = \<lparr>pkt_Timestamp = t, pkt_Size = 1200, pkt_Direction = ''outbound'',
                    pkt_Protocol = ''TCP''\<rparr>"

definition one_packet_flow :: Flow where
  "one_packet_flow =
     (new_Flow ''192.168.1.100:54321-8.8.8.8:443'' 1000)
       \<lparr>Packets := [test_packet 1000], LastSeen := 1000\<rparr>"

definition ten_packet_flow :: Flow where
  "ten_packet_flow =
     (new_Flow ''192.168.1.100:54321-8.8.8.8:443'' 0)
       \<lparr>Packets := map (\<lambda>i. test_packet (int i * 100000000)) [0..<10],
        LastSeen := 900000000\<rparr>"

definition test_capture_cfg :: CaptureConfig where
  "test_capture_cfg = \<lparr>Interface = ''eth0'', BPFFilter = ''tcp or udp'', BufferSize = 1048576\<rparr>"

definition cycle_engine :: argus_Engine where
  "cycle_engine =
     \<lparr>a_config = test_capture_cfg, cortex = test_engine,
      flows = [(''192.168.1.100:54321-8.8.8.8:443'', ten_packet_flow)],
      a_stats = \<lparr>TotalPackets = 10, ActiveFlows = 1, AnalyzedFlows = 0,
                 LastPacket = 900000000\<rparr>\<rparr>"

definition idle_flow :: "string \<Rightarrow> int \<Rightarrow> Flow" where
  "idle_flow flowID t = (new_Flow flowID 0)\<lparr>Packets := [test_packet t], LastSeen := t\<rparr>"

definition sweep_engine :: argus_Engine where
  "sweep_engine =
     \<lparr>a_config = test_capture_cfg, cortex = test_engine,
      flows = [(''recent-flow'', idle_flow ''recent-flow'' (14 * Minute)),
               (''boundary-flow'', idle_flow ''boundary-flow'' (10 * Minute)),
               (''old-flow'', idle_flow ''old-flow'' 0)],
      a_stats = \<lparr>TotalPackets = 3, ActiveFlows = 3, AnalyzedFlows = 0,
                 LastPacket = 14 * Minute\<rparr>\<rparr>"

section \<open>Statistics: counters and running average\<close>

lemma updateStats_total [simp]:
  "TotalInferences (updateStats s r) = TotalInferences s + 1"
  by (simp add: updateStats_def Let_def)

lemma updateStats_bot [simp]:
  "BotDetections (updateStats s r) = BotDetections s + (if IsBot r then 1 else 0)"
  by (simp add: updateStats_def Let_def)

lemma updateStats_human [simp]:
  "HumanDetections (updateStats s r) = HumanDetections s + (if IsBot r then 0 else 1)"
  by (simp add: updateStats_def Let_def)

lemma updateStats_avg:
  "AverageConfidence (updateStats s r) =
     (AverageConfidence s * real_of_int (TotalInferences s) + Confidence r)
       / real_of_int (TotalInferences s + 1)"
  by (simp add: updateStats_def Let_def)

lemma ml_updateStats_total [simp]:
  "TotalPredictions (ml_updateStats s r) = TotalPredictions s + 1"
  by (simp add: ml_updateStats_def Let_def)

lemma ml_updateStats_bot [simp]:
  "ml_BotDetections (ml_updateStats s r) = ml_BotDetections s + (if ml_IsBot r then 1 else 0)"
  by (simp add: ml_updateStats_def Let_def)

lemma ml_updateStats_human [simp]:
  "ml_HumanDetections (ml_updateStats s r) =
     ml_HumanDetections s + (if ml_IsBot r then 0 else 1)"
  by (simp add: ml_updateStats_def Let_def)

lemma ml_updateStats_avg:
  "ml_AverageConfidence (ml_updateStats s r) =
     (ml_AverageConfidence s * real_of_int (TotalPredictions s) + ml_Confidence r)
       / real_of_int (TotalPredictions s + 1)"
  by (simp add: ml_updateStats_def Let_def)

text \<open>
  The loop invariant of the running average: the stored average times the number of
  results seen is the sum of their confidences.
\<close>

lemma updateStats_all_total:
  "TotalInferences (updateStats_all s rs) = TotalInferences s + int (length rs)"
  unfolding updateStats_all_def by (induction rs arbitrary: s) simp_all

lemma updateStats_all_sum:
  assumes "0 \<le> TotalInferences s"
  shows "AverageConfidence (updateStats_all s rs)
           * real_of_int (TotalInferences s + int (length rs))
         = AverageConfidence s * real_of_int (TotalInferences s)
           + sum_list (map Confidence rs)"
  using assms unfolding updateStats_all_def
proof (induction rs arbitrary: s)
  case Nil
  then show ?case by simp
next
  case (Cons r rs)
  have pos: "real_of_int (TotalInferences s + 1) \<noteq> 0"
    using Cons.prems by (metis add.commute of_int_0_eq_iff zero_less_one
        add_nonneg_pos less_irrefl)
  have "AverageConfidence (foldl updateStats (updateStats s r) rs)
          * real_of_int (TotalInferences (updateStats s r) + int (length rs))
        = AverageConfidence (updateStats s r) * real_of_int (TotalInferences (updateStats s r))
          + sum_list (map Confidence rs)"
    using Cons.prems by (intro Cons.IH) simp
  moreover have "AverageConfidence (updateStats s r) * real_of_int (TotalInferences s + 1)
        = AverageConfidence s * real_of_int (TotalInferences s) + Confidence r"
    using pos by (simp add: updateStats_avg)
  ultimately show ?case by (simp add: algebra_simps)
qed

lemma ml_updateStats_all_sum:
  assumes "0 \<le> TotalPredictions s"
  shows "ml_AverageConfidence (ml_updateStats_all s rs)
           * real_of_int (TotalPredictions s + int (length rs))
         = ml_AverageConfidence s * real_of_int (TotalPredictions s)
           + sum_list (map ml_Confidence rs)"
  using assms unfolding ml_updateStats_all_def
proof (induction rs arbitrary: s)
  case Nil
  then show ?case by simp
next
  case (Cons r rs)
  have pos: "real_of_int (TotalPredictions s + 1) \<noteq> 0"
    using Cons.prems by (metis of_int_0_eq_iff zero_less_one add_nonneg_pos less_irrefl)
  have "ml_AverageConfidence (foldl ml_updateStats (ml_updateStats s r) rs)
          * real_of_int (TotalPredictions (ml_updateStats s r) + int (length rs))
        = ml_AverageConfidence (ml_updateStats s r)
            * real_of_int (TotalPredictions (ml_updateStats s r))
          + sum_list (map ml_Confidence rs)"
    using Cons.prems by (intro Cons.IH) simp
  moreover have "ml_AverageConfidence (ml_updateStats s r) * real_of_int (TotalPredictions s + 1)
        = ml_AverageConfidence s * real_of_int (TotalPredictions s) + ml_Confidence r"
    using pos by (simp add: ml_updateStats_avg)
  ultimately show ?case by (simp add: algebra_simps)
qed

lemma updateStats_all_mean:
  assumes "rs \<noteq> []"
  shows "AverageConfidence (updateStats_all Statistics_zero rs)
         = sum_list (map Confidence rs) / real (length rs)"
proof -
  have "AverageConfidence (updateStats_all Statistics_zero rs) * real (length rs)
        = sum_list (map Confidence rs)"
    using updateStats_all_sum [of Statistics_zero rs] by (simp add: Statistics_zero_def)
  moreover have "real (length rs) \<noteq> 0" using assms by simp
  ultimately show ?thesis by (simp add: field_simps)
qed

lemma ml_updateStats_all_mean:
  assumes "rs \<noteq> []"
  shows "ml_AverageConfidence (ml_updateStats_all MLStatistics_zero rs)
         = sum_list (map ml_Confidence rs) / real (length rs)"
proof -
  have "ml_AverageConfidence (ml_updateStats_all MLStatistics_zero rs) * real (length rs)
        = sum_list (map ml_Confidence rs)"
    using ml_updateStats_all_sum [of MLStatistics_zero rs] by (simp add: MLStatistics_zero_def)
  moreover have "real (length rs) \<noteq> 0" using assms by simp
  ultimately show ?thesis by (simp add: field_simps)
qed

lemma updateStats_avg_post:
  "AverageConfidence (updateStats s r) =
     (AverageConfidence s * (real_of_int (TotalInferences (updateStats s r)) - 1) + Confidence r)
       / real_of_int (TotalInferences (updateStats s r))"
  by (simp add: updateStats_def Let_def)

lemma ml_updateStats_avg_post:
  "ml_AverageConfidence (ml_updateStats s r) =
     (ml_AverageConfidence s * (real_of_int (TotalPredictions (ml_updateStats s r)) - 1)
        + ml_Confidence r)
       / real_of_int (TotalPredictions (ml_updateStats s r))"
  by (simp add: ml_updateStats_def Let_def)

text \<open>
  Claim C4. Each update replaces the stored average \<open>avg\<close> by
  \<open>(avg * (n - 1) + confidence) / n\<close>, with \<open>n\<close> the total after the increment; and after
  feeding any non-empty sequence of results to fresh statistics the stored average is the
  arithmetic mean of their confidences. Both hold for the cortex engine's and for the
  ML engine's statistics, over exact real arithmetic.
\<close>

theorem running_average_is_arithmetic_mean:
  assumes "rs \<noteq> []" and "mrs \<noteq> []"
  shows "AverageConfidence (updateStats s r) =
           (AverageConfidence s * (real_of_int (TotalInferences (updateStats s r)) - 1)
              + Confidence r) / real_of_int (TotalInferences (updateStats s r))
       \<and> ml_AverageConfidence (ml_updateStats ms mr) =
           (ml_AverageConfidence ms * (real_of_int (TotalPredictions (ml_updateStats ms mr)) - 1)
              + ml_Confidence mr) / real_of_int (TotalPredictions (ml_updateStats ms mr))
       \<and> AverageConfidence (updateStats_all Statistics_zero rs)
           = sum_list (map Confidence rs) / real (length rs)
       \<and> ml_AverageConfidence (ml_updateStats_all MLStatistics_zero mrs)
           = sum_list (map ml_Confidence mrs) / real (length mrs)"
  using assms updateStats_avg_post ml_updateStats_avg_post
    updateStats_all_mean ml_updateStats_all_mean by blast

theorem running_average_is_arithmetic_mean_witness:
  "test_results \<noteq> [] \<and> ml_test_results \<noteq> []
   \<and> AverageConfidence (updateStats_all Statistics_zero test_results) = (0.9 + 0.3 + 0.8) / 3
   \<and> ml_AverageConfidence (ml_updateStats_all MLStatistics_zero ml_test_results)
       = (0.9 + 0.3 + 0.8) / 3"
proof -
  have a: "test_results \<noteq> []" by (simp add: test_results_def)
  have b: "ml_test_results \<noteq> []" by (simp add: ml_test_results_def)
  show ?thesis
    using a b running_average_is_arithmetic_mean [OF a b]
    by (simp add: test_results_def ml_test_results_def)
qed

lemma stats_inv_zero: "stats_inv Statistics_zero"
  by (simp add: stats_inv_def Statistics_zero_def)

lemma ml_stats_inv_zero: "ml_stats_inv MLStatistics_zero"
  by (simp add: ml_stats_inv_def MLStatistics_zero_def)

lemma stats_inv_updateStats: "stats_inv s \<Longrightarrow> stats_inv (updateStats s r)"
  by (simp add: stats_inv_def)

lemma ml_stats_inv_updateStats: "ml_stats_inv s \<Longrightarrow> ml_stats_inv (ml_updateStats s r)"
  by (simp add: ml_stats_inv_def)

text \<open>
  Claim C5. The three counters are non-negative and the bot and human counts add up to
  the total: this holds for the zero statistics and every update preserves it, adding
  one to the total and one to exactly one of the two counts, the bot count when the
  result is a bot and the human count otherwise. Stated for both engines' statistics.
\<close>

theorem statistics_invariant_preserved:
  "stats_inv Statistics_zero
   \<and> (stats_inv s \<longrightarrow> stats_inv (updateStats s r))
   \<and> TotalInferences (updateStats s r) = TotalInferences s + 1
   \<and> BotDetections (updateStats s r) = BotDetections s + (if IsBot r then 1 else 0)
   \<and> HumanDetections (updateStats s r) = HumanDetections s + (if IsBot r then 0 else 1)
   \<and> ml_stats_inv MLStatistics_zero
   \<and> (ml_stats_inv ms \<longrightarrow> ml_stats_inv (ml_updateStats ms mr))
   \<and> TotalPredictions (ml_updateStats ms mr) = TotalPredictions ms + 1
   \<and> ml_BotDetections (ml_updateStats ms mr)
       = ml_BotDetections ms + (if ml_IsBot mr then 1 else 0)
   \<and> ml_HumanDetections (ml_updateStats ms mr)
       = ml_HumanDetections ms + (if ml_IsBot mr then 0 else 1)"
  using stats_inv_zero ml_stats_inv_zero stats_inv_updateStats ml_stats_inv_updateStats
  by simp

theorem statistics_invariant_preserved_witness:
  "stats_inv Statistics_zero
   \<and> stats_inv (updateStats Statistics_zero (hd test_results))
   \<and> TotalInferences (updateStats Statistics_zero (hd test_results)) = 1
   \<and> BotDetections (updateStats Statistics_zero (hd test_results)) = 1
   \<and> HumanDetections (updateStats Statistics_zero (hd test_results)) = 0
   \<and> ml_stats_inv MLStatistics_zero
   \<and> ml_stats_inv (ml_updateStats MLStatistics_zero (ml_test_results ! 1))
   \<and> TotalPredictions (ml_updateStats MLStatistics_zero (ml_test_results ! 1)) = 1
   \<and> ml_BotDetections (ml_updateStats MLStatistics_zero (ml_test_results ! 1)) = 0
   \<and> ml_HumanDetections (ml_updateStats MLStatistics_zero (ml_test_results ! 1)) = 1"
  using statistics_invariant_preserved
    [of Statistics_zero "hd test_results" MLStatistics_zero "ml_test_results ! 1"]
  by (simp add: test_results_def ml_test_results_def Statistics_zero_def MLStatistics_zero_def)

section \<open>Scoring backends\<close>















lemma Analyze_result_iff:
  "engine_ready e \<Longrightarrow> (\<exists>err. fst (Analyze e fs fid nano now) = Inl err) \<longleftrightarrow> length fs \<noteq> 128"
  by (auto simp: Analyze_def engine_ready_def Let_def split: option.splits prod.splits)


lemma Analyze_ready: "engine_ready e \<Longrightarrow> engine_ready (snd (Analyze e fs fid nano now))"
  by (auto simp: Analyze_def engine_ready_def Let_def split: option.splits prod.splits)

lemma NewEngine_ready: "\<exists>e. NewEngine cfg = Inr e \<and> engine_ready e \<and> c_stats e = Statistics_zero"
  by (simp add: NewEngine_def loadModel_def engine_ready_def)








lemma ensemble_untrained:
  "none_trained m \<Longrightarrow> predictEnsemble m fs = Inr (simulatePrediction fs)"
  by (auto simp: none_trained_def predictEnsemble_def predictNeuralNetwork_def predictSVM_def
      Let_def split: option.splits)

lemma nn_untrained:
  "none_trained m \<Longrightarrow> predictNeuralNetwork m fs = Inr (simulatePrediction fs)"
  by (auto simp: none_trained_def predictNeuralNetwork_def split: option.splits)

lemma svm_untrained:
  "none_trained m \<Longrightarrow> predictSVM m fs = Inr (simulatePrediction fs)"
  by (auto simp: none_trained_def predictSVM_def split: option.splits)

lemma Predict_untrained_ensemble:
  assumes "none_trained m" and "ModelType (ml_config m) = ''ensemble''"
  shows "Predict m fs fid now = Predict_finish m fs fid now (simulatePrediction fs) ''ensemble''"
  using assms ensemble_untrained [of m fs] by (simp add: Predict_def)

lemma Predict_finish_confidence:
  "\<exists>r. fst (Predict_finish m fs fid now c u) = Inr r \<and> ml_Confidence r = c"
  by (simp add: Predict_finish_def Let_def)

subsection \<open>Evaluation on the test vector\<close>

lemma test_features_length: "length test_features = 128"
  by (simp add: test_features_def)


lemma simulatePrediction_test: "simulatePrediction test_features = 1"
  by (simp add: test_features_def simulatePrediction_def simulatePrediction_step_def
      upt_rec enumerate_eq_zip)



lemma engine_ready_test: "engine_ready test_engine"
  by (simp add: engine_ready_def test_engine_def)

lemma none_trained_ensemble: "none_trained ensemble_engine"
  by (simp add: none_trained_def ensemble_engine_def blank_network_def)


lemma generateReasoning_test:
  "generateReasoning test_features 1 ''ensemble'' = ensemble_reasoning"
  by (simp add: generateReasoning_def ensemble_reasoning_def test_features_length)

lemma Predict_test:
  "fst (Predict ensemble_engine test_features ''test-flow-123'' 7) = Inr ensemble_result"
proof -
  have "ModelType (ml_config ensemble_engine) = ''ensemble''"
    by (simp add: ensemble_engine_def ensemble_cfg_def)
  moreover have "ml_DetectionThreshold (ml_config ensemble_engine) = 0.6"
    by (simp add: ensemble_engine_def ensemble_cfg_def)
  ultimately show ?thesis
    using Predict_untrained_ensemble [OF none_trained_ensemble]
    by (simp add: simulatePrediction_test Predict_finish_def generateReasoning_test
        ensemble_result_def Let_def)
qed


section \<open>Claims about scoring\<close>



text \<open>
  Claim C6. When no sub-model of the engine reports trained, \<open>predictEnsemble\<close> returns
  no error and exactly the value of the heuristic \<open>simulatePrediction\<close> on the same
  features; an engine of type \<open>ensemble\<close> then returns from \<open>Predict\<close> a result, not an
  error, whose confidence is the heuristic's.
\<close>

theorem ensemble_untrained_equals_heuristic:
  assumes "none_trained m"
  shows "predictEnsemble m fs = Inr (simulatePrediction fs)
       \<and> (ModelType (ml_config m) = ''ensemble'' \<longrightarrow>
            (\<exists>r. fst (Predict m fs fid now) = Inr r \<and> ml_Confidence r = simulatePrediction fs))"
  using assms ensemble_untrained [of m fs] Predict_untrained_ensemble [of m fs fid now]
    Predict_finish_confidence [of m fs fid now "simulatePrediction fs" "''ensemble''"]
  by simp

theorem ensemble_untrained_equals_heuristic_witness:
  "none_trained ensemble_engine
   \<and> ModelType (ml_config ensemble_engine) = ''ensemble''
   \<and> predictEnsemble ensemble_engine test_features = Inr 1
   \<and> simulatePrediction test_features = 1
   \<and> fst (Predict ensemble_engine test_features ''test-flow-123'' 7) = Inr ensemble_result
   \<and> ml_Confidence ensemble_result = 1"
  using ensemble_untrained_equals_heuristic [OF none_trained_ensemble, of test_features
      "''test-flow-123''" 7]
    none_trained_ensemble simulatePrediction_test Predict_test
  by (simp add: ensemble_engine_def ensemble_cfg_def ensemble_result_def)






section \<open>Flow identifiers\<close>












section \<open>Feature extraction\<close>

lemma extractFeatures_length: "length (extractFeatures flow) = 128"
  by (simp add: extractFeatures_def Let_def)

lemma extractFeatures_count:
  assumes "Packets flow \<noteq> []"
  shows "extractFeatures flow ! 20 = real (length (Packets flow))"
  using assms by (simp add: extractFeatures_def Let_def nth_enumerate_eq fill_pattern_def)

lemma extractFeatures_filler:
  assumes "Packets flow \<noteq> []" "i < 128" "i \<noteq> 0" "i \<noteq> 10" "i \<noteq> 20" "i \<noteq> 21"
  shows "extractFeatures flow ! i = real (i mod 10) / 10"
  using assms by (simp add: extractFeatures_def Let_def nth_enumerate_eq fill_pattern_def)

lemma extractFeatures_not_all_zero:
  assumes "Packets flow \<noteq> []"
  shows "\<exists>i<128. extractFeatures flow ! i \<noteq> 0"
proof -
  have "extractFeatures flow ! 20 \<noteq> 0"
    using assms by (simp add: extractFeatures_count)
  then show ?thesis by (intro exI [of _ 20]) simp
qed

lemma extractFeatures_filler_zero:
  assumes "Packets flow \<noteq> []" "i < 128" "i \<noteq> 0" "i \<noteq> 10" "i \<noteq> 20" "i \<noteq> 21"
  shows "extractFeatures flow ! i = 0 \<longleftrightarrow> i mod 10 = 0"
  unfolding extractFeatures_filler [OF assms] by simp

text \<open>
  Claim C2 as stated fails: slot 30 is never assigned a computed value, and the filler
  gives it the value 0, for a flow with one packet as for any other.
\<close>

theorem extractFeatures_filler_nonzero_counterexample:
  "Packets one_packet_flow \<noteq> [] \<and> extractFeatures one_packet_flow ! 30 = 0"
  using extractFeatures_filler [of one_packet_flow 30]
  by (simp add: one_packet_flow_def new_Flow_def)

text \<open>
  Claim C2, amended. The vector always has length 128. For a flow with at least one
  packet, every slot other than the computed slots 0, 10, 20 and 21 holds
  \<open>(i mod 10) / 10\<close>, which is zero exactly at the multiples of ten; slot 20 holds the
  packet count; and the vector is not all zero.
\<close>

theorem extractFeatures_filler_and_length:
  "length (extractFeatures flow) = 128
   \<and> (Packets flow \<noteq> [] \<longrightarrow>
        (\<forall>i<128. i \<noteq> 0 \<and> i \<noteq> 10 \<and> i \<noteq> 20 \<and> i \<noteq> 21 \<longrightarrow>
           extractFeatures flow ! i = real (i mod 10) / 10
           \<and> (extractFeatures flow ! i = 0 \<longleftrightarrow> i mod 10 = 0))
        \<and> extractFeatures flow ! 20 = real (length (Packets flow))
        \<and> (\<exists>i<128. extractFeatures flow ! i \<noteq> 0))"
proof (intro conjI impI allI)
  show "length (extractFeatures flow) = 128" by (rule extractFeatures_length)
next
  fix i :: nat
  assume "Packets flow \<noteq> []" "i < 128" "i \<noteq> 0 \<and> i \<noteq> 10 \<and> i \<noteq> 20 \<and> i \<noteq> 21"
  then show "extractFeatures flow ! i = real (i mod 10) / 10"
    by (intro extractFeatures_filler) simp_all
next
  fix i :: nat
  assume "Packets flow \<noteq> []" "i < 128" "i \<noteq> 0 \<and> i \<noteq> 10 \<and> i \<noteq> 20 \<and> i \<noteq> 21"
  then show "extractFeatures flow ! i = 0 \<longleftrightarrow> i mod 10 = 0"
    by (intro extractFeatures_filler_zero) simp_all
next
  assume "Packets flow \<noteq> []"
  then show "extractFeatures flow ! 20 = real (length (Packets flow))"
    by (rule extractFeatures_count)
next
  assume "Packets flow \<noteq> []"
  then show "\<exists>i<128. extractFeatures flow ! i \<noteq> 0"
    by (rule extractFeatures_not_all_zero)
qed

theorem extractFeatures_filler_and_length_witness:
  "Packets one_packet_flow \<noteq> []
   \<and> length (extractFeatures one_packet_flow) = 128
   \<and> extractFeatures one_packet_flow ! 31 = 1 / 10
   \<and> extractFeatures one_packet_flow ! 40 = 0
   \<and> extractFeatures one_packet_flow ! 20 = 1"
proof -
  have a: "Packets one_packet_flow \<noteq> []" "length (Packets one_packet_flow) = 1"
    by (simp_all add: one_packet_flow_def new_Flow_def)
  show ?thesis
    using extractFeatures_filler_and_length [of one_packet_flow] a
    by simp
qed

section \<open>The eviction sweep\<close>

lemma map_of_filter_distinct:
  assumes "distinct (map fst xs)"
  shows "map_of (filter P xs) k
         = (case map_of xs k of None \<Rightarrow> None | Some v \<Rightarrow> if P (k, v) then Some v else None)"
  using assms
proof (induction xs)
  case Nil
  then show ?case by simp
next
  case (Cons x xs)
  obtain k' v' where x: "x = (k', v')" by (cases x)
  show ?case
  proof (cases "k' = k")
    case True
    then have "map_of xs k = None"
      using Cons.prems x by (simp add: map_of_eq_None_iff)
    then have "map_of (filter P xs) k = None"
      using Cons.IH Cons.prems by simp
    then show ?thesis using True x by simp
  next
    case False
    then show ?thesis using Cons x by simp
  qed
qed

lemma removeOldFlows_lookup:
  assumes "distinct (map fst (flows e))"
  shows "map_of (flows (removeOldFlows now e)) k
         = (case map_of (flows e) k of None \<Rightarrow> None
            | Some f \<Rightarrow> if now - LastSeen f > 5 * Minute then None else Some f)"
proof -
  have "\<And>f. (\<not> LastSeen f < now + - 5 * Minute) = (\<not> now - LastSeen f > 5 * Minute)"
    by auto
  then show ?thesis
    using map_of_filter_distinct [OF assms, of "\<lambda>p. \<not> LastSeen (snd p) < now + (- 5 * Minute)" k]
    by (simp add: removeOldFlows_def Let_def split: option.splits)
qed

lemma removeOldFlows_distinct:
  "distinct (map fst (flows e)) \<Longrightarrow> distinct (map fst (flows (removeOldFlows now e)))"
  by (simp add: removeOldFlows_def Let_def distinct_map_filter)

lemma removeOldFlows_active:
  "ActiveFlows (a_stats (removeOldFlows now e)) = int (length (flows (removeOldFlows now e)))"
  by (simp add: removeOldFlows_def Let_def)

lemma removeOldFlows_frame:
  "cortex (removeOldFlows now e) = cortex e \<and> a_config (removeOldFlows now e) = a_config e
   \<and> TotalPackets (a_stats (removeOldFlows now e)) = TotalPackets (a_stats e)
   \<and> AnalyzedFlows (a_stats (removeOldFlows now e)) = AnalyzedFlows (a_stats e)"
  by (simp add: removeOldFlows_def Let_def)

lemma removeOldFlows_removed_count:
  "int (length (flows e)) - int (length (flows (removeOldFlows now e)))
     = int (length (filter (\<lambda>p. now - LastSeen (snd p) > 5 * Minute) (flows e)))"
proof -
  have eq: "(\<lambda>p. \<not> LastSeen (snd p) < now + - 5 * Minute)
          = (\<lambda>p::string \<times> Flow. \<not> now - LastSeen (snd p) > 5 * Minute)"
    by (intro ext) auto
  have "flows (removeOldFlows now e)
      = filter (\<lambda>p. \<not> now - LastSeen (snd p) > 5 * Minute) (flows e)"
    by (simp only: removeOldFlows_def Let_def eq) simp
  then show ?thesis
    using sum_length_filter_compl [of "\<lambda>p. now - LastSeen (snd p) > 5 * Minute" "flows e"]
    by simp
qed

lemma sweep_after:
  "flows (removeOldFlows (15 * Minute + 1) sweep_engine)
     = [(''recent-flow'', idle_flow ''recent-flow'' (14 * Minute))]"
  by (simp add: removeOldFlows_def sweep_engine_def idle_flow_def Let_def Minute_def)

lemma sweep_before:
  "flows (removeOldFlows (15 * Minute - 1) sweep_engine)
     = [(''recent-flow'', idle_flow ''recent-flow'' (14 * Minute)),
        (''boundary-flow'', idle_flow ''boundary-flow'' (10 * Minute))]"
  by (simp add: removeOldFlows_def sweep_engine_def idle_flow_def Let_def Minute_def)

text \<open>Ingestion keeps the keys of the flow table distinct, as the sweep does.\<close>

lemma addPacketToFlow_distinct:
  "distinct (map fst (flows e)) \<Longrightarrow> distinct (map fst (flows (addPacketToFlow e k p now)))"
  by (simp add: addPacketToFlow_def Let_def distinct_update)

text \<open>
  Claim C8 as stated fails: \<open>removeOldFlows\<close> has no return value. The one number it
  produces is the count of the flows that remain, stored in \<open>ActiveFlows\<close>: here 1,
  after a sweep that removed 2 flows.
\<close>

theorem removeOldFlows_returns_count_counterexample:
  "ActiveFlows (a_stats (removeOldFlows (15 * Minute + 1) sweep_engine)) = 1
   \<and> int (length (flows sweep_engine))
       - int (length (flows (removeOldFlows (15 * Minute + 1) sweep_engine))) = 2"
  using removeOldFlows_active [of "15 * Minute + 1" sweep_engine]
  by (simp add: sweep_after) (simp add: sweep_engine_def)

text \<open>
  Claim C8, amended. On a flow table with distinct keys, the sweep at time \<open>now\<close> removes
  exactly the flows with \<open>now - LastSeen > 5 minutes\<close> (the timeout is this constant) and
  leaves every other flow as it was; it returns nothing and stores the number of
  remaining flows in \<open>ActiveFlows\<close>; the table shrinks by the number of idle flows.
\<close>

theorem removeOldFlows_evicts_idle:
  assumes "distinct (map fst (flows e))"
  shows "map_of (flows (removeOldFlows now e)) k
           = (case map_of (flows e) k of None \<Rightarrow> None
              | Some f \<Rightarrow> if now - LastSeen f > 5 * Minute then None else Some f)
       \<and> distinct (map fst (flows (removeOldFlows now e)))
       \<and> ActiveFlows (a_stats (removeOldFlows now e))
           = int (length (flows (removeOldFlows now e)))
       \<and> int (length (flows e)) - int (length (flows (removeOldFlows now e)))
           = int (length (filter (\<lambda>p. now - LastSeen (snd p) > 5 * Minute) (flows e)))"
  using removeOldFlows_lookup [OF assms, of now k] removeOldFlows_distinct [OF assms, of now]
    removeOldFlows_active [of now e] removeOldFlows_removed_count [of e now]
  by simp

text \<open>
  The flow last seen at T = 10 minutes is still in the table after a sweep one
  nanosecond before T + 5 minutes and gone after a sweep one nanosecond past it.
\<close>

theorem removeOldFlows_evicts_idle_witness:
  "distinct (map fst (flows sweep_engine))
   \<and> map_of (flows (removeOldFlows (15 * Minute - 1) sweep_engine)) ''boundary-flow''
       = Some (idle_flow ''boundary-flow'' (10 * Minute))
   \<and> map_of (flows (removeOldFlows (15 * Minute + 1) sweep_engine)) ''boundary-flow'' = None
   \<and> map_of (flows (removeOldFlows (15 * Minute + 1) sweep_engine)) ''recent-flow''
       = Some (idle_flow ''recent-flow'' (14 * Minute))
   \<and> ActiveFlows (a_stats (removeOldFlows (15 * Minute + 1) sweep_engine)) = 1"
proof -
  have d: "distinct (map fst (flows sweep_engine))"
    by (simp add: sweep_engine_def)
  show ?thesis
    using removeOldFlows_evicts_idle [OF d, of "15 * Minute - 1" "''boundary-flow''"]
      removeOldFlows_evicts_idle [OF d, of "15 * Minute + 1" "''boundary-flow''"]
      removeOldFlows_evicts_idle [OF d, of "15 * Minute + 1" "''recent-flow''"] d
    by (simp add: sweep_after sweep_before)
qed

section \<open>The analysis cycle\<close>

lemma analysis_goroutine_flows: "flows (analysis_goroutine e task nano now) = flows e"
  by (simp add: analysis_goroutine_def split: prod.splits sum.splits)

lemma ten_packets: "length (Packets ten_packet_flow) = 10"
  by (simp add: ten_packet_flow_def new_Flow_def)

lemma ten_pending: "\<not> AnalysisPending ten_packet_flow" "ID ten_packet_flow = ''192.168.1.100:54321-8.8.8.8:443''"
  by (simp_all add: ten_packet_flow_def new_Flow_def)

lemma cycle_1:
  "performFlowAnalysis cycle_engine
    = (cycle_engine\<lparr>flows := [(''192.168.1.100:54321-8.8.8.8:443'',
                                 ten_packet_flow\<lparr>AnalysisPending := True\<rparr>)]\<rparr>,
       [(''192.168.1.100:54321-8.8.8.8:443'',
         extractFeatures (ten_packet_flow\<lparr>AnalysisPending := True\<rparr>))])"
  by (simp add: performFlowAnalysis_def cycle_engine_def eligible_def ten_packets ten_pending
      mark_pending_def Let_def)


lemma Analyze_ok:
  assumes "engine_ready e" "length fs = 128"
  shows "\<exists>r. fst (Analyze e fs fid nano now) = Inr r"
  using assms Analyze_result_iff [of e fs fid nano now]
  by (cases "fst (Analyze e fs fid nano now)") auto

lemma analysis_goroutine_ok:
  assumes "fst (Analyze (cortex e) (snd t) (fst t) nano now) = Inr r"
  shows "AnalyzedFlows (a_stats (analysis_goroutine e t nano now))
           = AnalyzedFlows (a_stats e) + 1"
  using assms by (auto simp: analysis_goroutine_def split: prod.splits)

lemma analysis_goroutine_error:
  assumes "fst (Analyze (cortex e) (snd t) (fst t) nano now) = Inl err"
  shows "a_stats (analysis_goroutine e t nano now) = a_stats e"
  using assms by (auto simp: analysis_goroutine_def split: prod.splits)

text \<open>
  Claim C1 does not hold of the code: nothing resets \<open>AnalysisPending\<close>. The goroutine
  leaves the flow table as it found it, on its error return as on success. Evaluated on
  an engine tracking one flow of ten packets: the cycle dispatches the flow; the
  goroutine runs to its end and counts one analysed flow; the flow's flag is still set;
  and the next cycle dispatches nothing.
\<close>

theorem pending_flag_never_cleared:
  "flows (analysis_goroutine e task nano now) = flows e \<and>
   (let p = performFlowAnalysis cycle_engine;
        e2 = analysis_goroutine (fst p) (hd (snd p)) 5 7
    in map fst (snd p) = [''192.168.1.100:54321-8.8.8.8:443'']
       \<and> AnalyzedFlows (a_stats e2) = 1
       \<and> flows e2 = [(''192.168.1.100:54321-8.8.8.8:443'',
                       ten_packet_flow\<lparr>AnalysisPending := True\<rparr>)]
       \<and> snd (performFlowAnalysis e2) = [])"
proof -
  let ?fid = "''192.168.1.100:54321-8.8.8.8:443''"
  let ?fs = "extractFeatures (ten_packet_flow\<lparr>AnalysisPending := True\<rparr>)"
  define p where "p = performFlowAnalysis cycle_engine"
  define e2 where "e2 = analysis_goroutine (fst p) (hd (snd p)) 5 7"
  have p: "p = (cycle_engine\<lparr>flows := [(?fid, ten_packet_flow\<lparr>AnalysisPending := True\<rparr>)]\<rparr>,
                [(?fid, ?fs)])"
    unfolding p_def by (rule cycle_1)
  have c: "cortex (fst p) = test_engine" "AnalyzedFlows (a_stats (fst p)) = 0"
    by (simp_all add: p cycle_engine_def)
  obtain r where "fst (Analyze test_engine ?fs ?fid 5 7) = Inr r"
    using Analyze_ok [OF engine_ready_test extractFeatures_length] by blast
  then have "fst (Analyze (cortex (fst p)) (snd (hd (snd p))) (fst (hd (snd p))) 5 7) = Inr r"
    by (simp add: c) (simp add: p)
  then have a: "AnalyzedFlows (a_stats e2) = 1"
    unfolding e2_def using c by (simp add: analysis_goroutine_ok)
  have f: "flows e2 = [(?fid, ten_packet_flow\<lparr>AnalysisPending := True\<rparr>)]"
    unfolding e2_def by (simp add: analysis_goroutine_flows) (simp add: p)
  have n: "snd (performFlowAnalysis e2) = []"
    by (simp add: performFlowAnalysis_def Let_def eligible_def f)
  have "map fst (snd p) = [?fid]" by (simp add: p)
  with a f n show ?thesis
    unfolding Let_def p_def [symmetric] e2_def [symmetric]
    by (simp add: analysis_goroutine_flows)
qed

end
